theory Spec2Isabelle
  imports Complex_Main "HOL-Library.Sublist"
begin

section \<open>The Gemini MCP server (src/index.ts)\<close>

text \<open>
  The server exposes three tools (\<open>gemini_analyze\<close>, \<open>gemini_chat\<close>,
  \<open>gemini_summarize\<close>). Each handler checks its one required argument, builds a
  list of Gemini messages and hands it to \<open>callGemini\<close>, which reads the API key,
  issues one HTTP POST and extracts the generated text. The request handler for
  \<open>tools/call\<close> wraps the handlers in a try/catch.

  The embedding follows the TypeScript types of the source. Exceptions are values of a
  sum type; the network and the process environment are fields of a \<open>world\<close>
  record; every function that may reach the network returns, next to its result, the
  list of HTTP requests it has issued.
\<close>

subsection \<open>JavaScript strings and truthiness\<close>

text \<open>
  A JavaScript string is modelled as a \<open>string\<close> whose characters are read as the
  code units U+0000 to U+00FF. \<open>String.prototype.trim\<close> strips white space and line
  terminators from both ends; in this range these are TAB, LF, VT, FF, CR, SPACE and
  NO-BREAK SPACE.
\<close>

definition is_js_whitespace :: "char \<Rightarrow> bool" where
  "is_js_whitespace c \<longleftrightarrow>
     c \<in> set [CHR 0x09, CHR 0x0A, CHR 0x0B, CHR 0x0C, CHR 0x0D, CHR 0x20, CHR 0xA0]"

definition trim :: "string \<Rightarrow> string" where
  "trim s = rev (dropWhile is_js_whitespace (rev (dropWhile is_js_whitespace s)))"

text \<open>\<open>x || d\<close> for \<open>x : string | undefined\<close>: \<open>undefined\<close> and the empty string are falsy.\<close>

definition or_default :: "string option \<Rightarrow> string \<Rightarrow> string" where
  "or_default x d = (case x of None \<Rightarrow> d | Some s \<Rightarrow> if s = [] then d else s)"

text \<open>Decimal rendering of a non-negative integer, as a template literal does.\<close>

fun string_of_nat :: "nat \<Rightarrow> string" where
  "string_of_nat n =
     (if n < 10 then [''0123456789'' ! n]
      else string_of_nat (n div 10) @ [''0123456789'' ! (n mod 10)])"

text \<open>
  What a \<open>throw\<close> or a rejected promise carries: an \<open>Error\<close> object with its message,
  or any other value, kept as its \<open>String(...)\<close> rendering. \<open>error_message\<close> is the
  expression \<open>error instanceof Error ? error.message : String(error)\<close>.
\<close>

datatype thrown = Error string | NonError string

fun error_message :: "thrown \<Rightarrow> string" where
  "error_message (Error m) = m"
| "error_message (NonError s) = s"

subsection \<open>Constants and types\<close>

definition GEMINI_API_BASE :: string where
  "GEMINI_API_BASE = ''https://generativelanguage.googleapis.com/v1beta/models''"

definition DEFAULT_MODEL :: string where
  "DEFAULT_MODEL = ''gemini-2.5-flash-preview-05-20''"

datatype role = User | Model

record text_part =
  "text" :: string

record GeminiMessage =
  role :: role
  parts :: "text_part list"

record generation_config =
  temperature :: "real option"
  maxOutputTokens :: "nat option"

record GeminiRequest =
  contents :: "GeminiMessage list"
  generationConfig :: "generation_config option"

text \<open>
  \<open>GeminiResponse\<close>: every level is optional, as in the interface. The fields of the
  nested anonymous types carry a prefix, since \<open>content\<close>, \<open>parts\<close> and \<open>text\<close> name
  other fields already.
\<close>

record response_part =
  resp_text :: "string option"

record response_content =
  resp_parts :: "response_part list option"

record candidate =
  cand_content :: "response_content option"

record api_error =
  message :: "string option"
  code :: "int option"

record GeminiResponse =
  candidates :: "candidate list option"
  error :: "api_error option"

subsection \<open>The network and the environment\<close>

text \<open>
  The argument of \<open>fetch\<close>. The body is kept as the \<open>GeminiRequest\<close> that
  \<open>JSON.stringify\<close> is applied to.
\<close>

record http_request =
  url :: string
  "method" :: string
  headers :: "(string \<times> string) list"
  body :: GeminiRequest

text \<open>
  The \<open>Response\<close> object: its status, and what \<open>response.text()\<close> and
  \<open>response.json()\<close> resolve to (or reject with). \<open>response.ok\<close> is true for a status
  from 200 to 299.
\<close>

record http_response =
  status :: nat
  text_result :: "thrown + string"
  json_result :: "thrown + GeminiResponse"

definition ok :: "http_response \<Rightarrow> bool" where
  "ok response \<longleftrightarrow> 200 \<le> status response \<and> status response \<le> 299"

record world =
  GEMINI_API_KEY :: "string option"
  fetch :: "http_request \<Rightarrow> thrown + http_response"

text \<open>A result or a thrown value, with the HTTP requests issued on the way.\<close>

type_synonym 'a outcome = "(thrown + 'a) \<times> http_request list"

subsection \<open>getApiKey and callGemini\<close>

definition getApiKey :: "world \<Rightarrow> thrown + string" where
  "getApiKey w =
     (case GEMINI_API_KEY w of
        None \<Rightarrow> Inl (Error (''GEMINI_API_KEY environment variable is required. '' @
                           ''Get your API key from https://aistudio.google.com/apikey''))
      | Some apiKey \<Rightarrow>
          if apiKey = [] then
            Inl (Error (''GEMINI_API_KEY environment variable is required. '' @
                        ''Get your API key from https://aistudio.google.com/apikey''))
          else Inr apiKey)"

text \<open>\<open>data.candidates?.[0]?.content?.parts?.[0]?.text\<close>\<close>

definition first_candidate_text :: "GeminiResponse \<Rightarrow> string option" where
  "first_candidate_text data =
     (case candidates data of
        None \<Rightarrow> None
      | Some [] \<Rightarrow> None
      | Some (c # _) \<Rightarrow>
          (case cand_content c of
             None \<Rightarrow> None
           | Some ct \<Rightarrow>
               (case resp_parts ct of
                  None \<Rightarrow> None
                | Some [] \<Rightarrow> None
                | Some (p # _) \<Rightarrow> resp_text p)))"

text \<open>
  The three defaulted parameters take \<open>None\<close> when the caller omits them.
\<close>

definition callGemini ::
  "world \<Rightarrow> GeminiMessage list \<Rightarrow> string option \<Rightarrow> real option \<Rightarrow> nat option
     \<Rightarrow> string outcome" where
  "callGemini w messages model_arg temperature_arg maxTokens_arg =
     (let model = (case model_arg of None \<Rightarrow> DEFAULT_MODEL | Some m \<Rightarrow> m);
          temp = (case temperature_arg of None \<Rightarrow> 0.7 | Some t \<Rightarrow> t);
          maxTokens = (case maxTokens_arg of None \<Rightarrow> 8192 | Some n \<Rightarrow> n)
      in case getApiKey w of
           Inl e \<Rightarrow> (Inl e, [])
         | Inr apiKey \<Rightarrow>
             let request = \<lparr>
                   url = GEMINI_API_BASE @ ''/'' @ model @ '':generateContent'',
                   method = ''POST'',
                   headers = [(''Content-Type'', ''application/json''),
                              (''x-goog-api-key'', apiKey)],
                   body = \<lparr>contents = messages,
                           generationConfig =
                             Some \<lparr>temperature = Some temp,
                                   maxOutputTokens = Some maxTokens\<rparr>\<rparr>\<rparr>
             in (case fetch w request of
                   Inl e \<Rightarrow> (Inl e, [request])
                 | Inr response \<Rightarrow>
                    if \<not> ok response then
                      (case text_result response of
                         Inl e \<Rightarrow> (Inl e, [request])
                       | Inr errorText \<Rightarrow>
                           (Inl (Error (''Gemini API error ('' @
                                        string_of_nat (status response) @ ''): '' @
                                        errorText)),
                            [request]))
                    else
                      (case json_result response of
                         Inl e \<Rightarrow> (Inl e, [request])
                       | Inr data \<Rightarrow>
                           (case error data of
                              Some err \<Rightarrow>
                                (Inl (Error (''Gemini API error: '' @
                                             or_default (message err) ''Unknown error'')),
                                 [request])
                            | None \<Rightarrow>
                                (case first_candidate_text data of
                                   None \<Rightarrow>
                                     (Inl (Error ''No response content from Gemini''),
                                      [request])
                                 | Some t \<Rightarrow>
                                     if t = [] then
                                       (Inl (Error ''No response content from Gemini''),
                                        [request])
                                     else (Inr t, [request]))))))"

subsection \<open>Tool handlers\<close>

text \<open>
  The argument object of a tool call. The casts at the dispatch are erased at run time,
  so every handler receives the object the client sent and reads the fields that its
  parameter type declares; a field the client left out is \<open>None\<close>. A field that is
  present has a value of its declared type.
\<close>

record chat_turn =
  turn_role :: role
  turn_content :: string

record tool_arguments =
  prompt :: "string option"
  "context" :: "string option"
  messages :: "chat_turn list option"
  content :: "string option"
  focus :: "string option"
  model :: "string option"

text \<open>
  The test \<open>!x?.trim()\<close> on an optional string: it holds when the field is undefined
  and when the trimmed string is empty. The handlers below spell its two cases out.
\<close>

definition blank :: "string option \<Rightarrow> bool" where
  "blank x = (case x of None \<Rightarrow> True | Some s \<Rightarrow> trim s = [])"

definition handleGeminiAnalyze :: "world \<Rightarrow> tool_arguments \<Rightarrow> string outcome" where
  "handleGeminiAnalyze w args =
     (case prompt args of
        None \<Rightarrow> (Inl (Error ''prompt is required and cannot be empty''), [])
      | Some p \<Rightarrow>
          if trim p = [] then (Inl (Error ''prompt is required and cannot be empty''), [])
          else
            let fullPrompt =
                  (case context args of
                     None \<Rightarrow> p
                   | Some c \<Rightarrow>
                       if trim c = [] then p
                       else p @ ''\<newline>\<newline>--- Context ---\<newline>'' @ c);
                msgs = [\<lparr>role = User, parts = [\<lparr>text = fullPrompt\<rparr>]\<rparr>]
            in callGemini w msgs (Some (or_default (model args) DEFAULT_MODEL)) None None)"

text \<open>
  The guard of the chat handler is
  \<open>!args.messages || !Array.isArray(args.messages) || args.messages.length === 0\<close>.
  On a value of the declared array type the middle test is false, which leaves the
  absent field and the array of length zero. The two fields of a turn are \<open>role\<close> and
  \<open>content\<close> in the source.
\<close>

definition handleGeminiChat :: "world \<Rightarrow> tool_arguments \<Rightarrow> string outcome" where
  "handleGeminiChat w args =
     (case messages args of
        None \<Rightarrow> (Inl (Error ''messages array is required and cannot be empty''), [])
      | Some ms \<Rightarrow>
          if length ms = 0 then
            (Inl (Error ''messages array is required and cannot be empty''), [])
          else
            let geminiMessages =
                  map (\<lambda>msg. \<lparr>role = turn_role msg,
                               parts = [\<lparr>text = turn_content msg\<rparr>]\<rparr>) ms
            in callGemini w geminiMessages
                 (Some (or_default (model args) DEFAULT_MODEL)) None None)"

definition handleGeminiSummarize :: "world \<Rightarrow> tool_arguments \<Rightarrow> string outcome" where
  "handleGeminiSummarize w args =
     (case content args of
        None \<Rightarrow> (Inl (Error ''content is required and cannot be empty''), [])
      | Some c \<Rightarrow>
          if trim c = [] then (Inl (Error ''content is required and cannot be empty''), [])
          else
            let prefix0 = ''Please provide a concise summary of the following content:'' @
                          ''\<newline>\<newline>'';
                prefix1 =
                  (case focus args of
                     None \<Rightarrow> prefix0
                   | Some f \<Rightarrow>
                       if trim f = [] then prefix0
                       else ''Please summarize the following content, '' @
                            ''focusing specifically on: '' @ f @ ''\<newline>\<newline>'');
                msgs = [\<lparr>role = User, parts = [\<lparr>text = prefix1 @ c\<rparr>]\<rparr>]
            in callGemini w msgs
                 (Some (or_default (model args) DEFAULT_MODEL)) (Some 0.5) None)"

subsection \<open>The tools/call request handler\<close>

record content_item =
  item_type :: string
  item_text :: string

record tool_result =
  result_content :: "content_item list"
  isError :: "bool option"

text \<open>The body of the \<open>try\<close> block: the switch over the tool name.\<close>

definition tool_switch :: "world \<Rightarrow> string \<Rightarrow> tool_arguments \<Rightarrow> string outcome" where
  "tool_switch w name args =
     (if name = ''gemini_analyze'' then handleGeminiAnalyze w args
      else if name = ''gemini_chat'' then handleGeminiChat w args
      else if name = ''gemini_summarize'' then handleGeminiSummarize w args
      else (Inl (Error (''Unknown tool: '' @ name)), []))"

text \<open>The handler registered for \<open>CallToolRequestSchema\<close>: the try/catch.\<close>

definition call_tool_handler ::
  "world \<Rightarrow> string \<Rightarrow> tool_arguments \<Rightarrow> tool_result \<times> http_request list" where
  "call_tool_handler w name args =
     (case tool_switch w name args of
        (Inr result, reqs) \<Rightarrow>
          (\<lparr>result_content = [\<lparr>item_type = ''text'', item_text = result\<rparr>],
            isError = None\<rparr>, reqs)
      | (Inl e, reqs) \<Rightarrow>
          (\<lparr>result_content =
              [\<lparr>item_type = ''text'', item_text = ''Error: '' @ error_message e\<rparr>],
            isError = Some True\<rparr>, reqs))"

subsection \<open>The constraints of the written specification\<close>

text \<open>
  The data model of the specification bounds the fields of a summarize request:
  \<open>content\<close> is required and has 1 to 1,000,000 characters, \<open>focus\<close> is optional and
  has at most 1,000 characters, \<open>model\<close> is optional and belongs to a closed set of
  known names. \<open>spec_violated_fields_summarize\<close> follows these words, not the code: it
  lists the fields of a request that break their constraint. The set of known model
  names is a parameter.
\<close>

definition spec_violated_fields_summarize ::
  "string list \<Rightarrow> tool_arguments \<Rightarrow> string list" where
  "spec_violated_fields_summarize known_models args =
     (case content args of
        None \<Rightarrow> [''content'']
      | Some c \<Rightarrow> if length c < 1 \<or> 1000000 < length c then [''content''] else []) @
     (case focus args of
        None \<Rightarrow> []
      | Some f \<Rightarrow> if 1000 < length f then [''focus''] else []) @
     (case model args of
        None \<Rightarrow> []
      | Some m \<Rightarrow> if m \<in> set known_models then [] else [''model''])"

subsection \<open>Concrete worlds and requests\<close>

text \<open>An upstream that answers every request with status 200 and the text \<open>Hello\<close>.\<close>

definition hello_response :: http_response where
  "hello_response =
     \<lparr>status = 200,
      text_result = Inr ''Hello'',
      json_result =
        Inr \<lparr>candidates =
               Some [\<lparr>cand_content =
                        Some \<lparr>resp_parts = Some [\<lparr>resp_text = Some ''Hello''\<rparr>]\<rparr>\<rparr>],
             error = None\<rparr>\<rparr>"

definition hello_world :: world where
  "hello_world = \<lparr>GEMINI_API_KEY = Some ''test-key'', fetch = (\<lambda>_. Inr hello_response)\<rparr>"

text \<open>An upstream that answers with status 200 and a JSON object without candidates.\<close>

definition no_candidates_response :: http_response where
  "no_candidates_response =
     \<lparr>status = 200,
      text_result = Inr ''{}'',
      json_result = Inr \<lparr>candidates = None, error = None\<rparr>\<rparr>"

definition no_candidates_world :: world where
  "no_candidates_world =
     \<lparr>GEMINI_API_KEY = Some ''test-key'', fetch = (\<lambda>_. Inr no_candidates_response)\<rparr>"

text \<open>An upstream that answers with status 500 and the body \<open>overloaded\<close>.\<close>

definition overloaded_response :: http_response where
  "overloaded_response =
     \<lparr>status = 500,
      text_result = Inr ''overloaded'',
      json_result = Inl (Error ''Unexpected token o in JSON at position 0'')\<rparr>"

definition overloaded_world :: world where
  "overloaded_world =
     \<lparr>GEMINI_API_KEY = Some ''test-key'', fetch = (\<lambda>_. Inr overloaded_response)\<rparr>"

text \<open>A process without the API key.\<close>

definition no_key_world :: world where
  "no_key_world = \<lparr>GEMINI_API_KEY = None, fetch = (\<lambda>_. Inr hello_response)\<rparr>"

text \<open>An argument object that carries the fields of all three tools.\<close>

definition sample_arguments :: tool_arguments where
  "sample_arguments =
     \<lparr>prompt = Some ''X'',
      context = Some ''Y'',
      messages = Some [\<lparr>turn_role = User, turn_content = ''hi''\<rparr>,
                       \<lparr>turn_role = Model, turn_content = ''hello''\<rparr>],
      content = Some ''ABC'',
      focus = Some ''bugs'',
      model = None\<rparr>"

text \<open>An argument object without any field.\<close>

definition no_arguments :: tool_arguments where
  "no_arguments =
     \<lparr>prompt = None, context = None, messages = None, content = None, focus = None,
      model = None\<rparr>"

section \<open>Properties\<close>

subsection \<open>Auxiliary facts\<close>

lemmas world_defs = hello_world_def hello_response_def no_candidates_world_def
  no_candidates_response_def overloaded_world_def overloaded_response_def no_key_world_def
  sample_arguments_def no_arguments_def

lemmas code_defs = callGemini_def getApiKey_def first_candidate_text_def ok_def
  handleGeminiAnalyze_def handleGeminiChat_def handleGeminiSummarize_def
  tool_switch_def call_tool_handler_def or_default_def GEMINI_API_BASE_def
  DEFAULT_MODEL_def trim_def is_js_whitespace_def blank_def Let_def

lemma dropWhile_all_iff: "(\<forall>c\<in>set (dropWhile P s). P c) \<longleftrightarrow> (\<forall>c\<in>set s. P c)"
  by (induction s) auto

text \<open>A string trims to the empty string exactly when all its characters are white space.\<close>

lemma trim_eq_Nil_iff: "trim s = [] \<longleftrightarrow> (\<forall>c\<in>set s. is_js_whitespace c)"
  by (simp add: trim_def dropWhile_all_iff)

text \<open>With an API key, \<open>callGemini\<close> issues exactly one request, built from its arguments.\<close>

lemma callGemini_requests:
  assumes "GEMINI_API_KEY w = Some k" and "k \<noteq> []"
  shows "snd (callGemini w msgs m t n) =
    [\<lparr>url = GEMINI_API_BASE @ ''/'' @ (case m of None \<Rightarrow> DEFAULT_MODEL | Some x \<Rightarrow> x) @
            '':generateContent'',
      method = ''POST'',
      headers = [(''Content-Type'', ''application/json''), (''x-goog-api-key'', k)],
      body = \<lparr>contents = msgs,
              generationConfig =
                Some \<lparr>temperature = Some (case t of None \<Rightarrow> 0.7 | Some x \<Rightarrow> x),
                      maxOutputTokens = Some (case n of None \<Rightarrow> 8192 | Some x \<Rightarrow> x)\<rparr>\<rparr>\<rparr>]"
  using assms
  by (simp add: callGemini_def getApiKey_def Let_def split: sum.split option.split)

subsection \<open>Model identifiers\<close>

text \<open>
  C1, as the specification states it: a model string outside the set of known model
  names makes the invocation fail in validation, without a network call. The code has
  no such check. With the model \<open>not-a-real-model\<close> and an otherwise valid analyze
  request, the handler succeeds and the request goes to the URL of that model.
\<close>

theorem unknown_model_reaches_upstream:
  "fst (handleGeminiAnalyze hello_world (sample_arguments\<lparr>model := Some ''not-a-real-model''\<rparr>))
     = Inr ''Hello'' \<and>
   map url (snd (handleGeminiAnalyze hello_world
                   (sample_arguments\<lparr>model := Some ''not-a-real-model''\<rparr>)))
     = [''https://generativelanguage.googleapis.com/v1beta/models/not-a-real-model:generateContent'']"
  by (simp add: world_defs code_defs)

text \<open>
  C1, amended: a non-empty model string is never validated. For each of the three
  tools, when the required field passes its presence check and an API key is
  configured, exactly one upstream request is issued, and its URL carries the model
  string verbatim, whatever the string is.
\<close>

theorem model_string_forwarded_verbatim:
  assumes "GEMINI_API_KEY w = Some k" and "k \<noteq> []"
    and "model args = Some m" and "m \<noteq> []"
  shows "(\<not> blank (prompt args) \<longrightarrow>
            map url (snd (handleGeminiAnalyze w args)) =
              [GEMINI_API_BASE @ ''/'' @ m @ '':generateContent'']) \<and>
         (messages args \<noteq> None \<and> messages args \<noteq> Some [] \<longrightarrow>
            map url (snd (handleGeminiChat w args)) =
              [GEMINI_API_BASE @ ''/'' @ m @ '':generateContent'']) \<and>
         (\<not> blank (content args) \<longrightarrow>
            map url (snd (handleGeminiSummarize w args)) =
              [GEMINI_API_BASE @ ''/'' @ m @ '':generateContent''])"
  using assms
  by (auto simp: handleGeminiAnalyze_def handleGeminiChat_def handleGeminiSummarize_def
      blank_def or_default_def Let_def callGemini_requests split: option.splits)

theorem model_string_forwarded_verbatim_witness:
  "GEMINI_API_KEY hello_world = Some ''test-key'' \<and> ''test-key'' \<noteq> [] \<and>
   model (sample_arguments\<lparr>model := Some ''not-a-real-model''\<rparr>) = Some ''not-a-real-model'' \<and>
   \<not> blank (prompt (sample_arguments\<lparr>model := Some ''not-a-real-model''\<rparr>)) \<and>
   map url (snd (handleGeminiAnalyze hello_world
                   (sample_arguments\<lparr>model := Some ''not-a-real-model''\<rparr>))) =
     [GEMINI_API_BASE @ ''/not-a-real-model:generateContent''] \<and>
   map url (snd (handleGeminiChat hello_world
                   (sample_arguments\<lparr>model := Some ''not-a-real-model''\<rparr>))) =
     [GEMINI_API_BASE @ ''/not-a-real-model:generateContent''] \<and>
   map url (snd (handleGeminiSummarize hello_world
                   (sample_arguments\<lparr>model := Some ''not-a-real-model''\<rparr>))) =
     [GEMINI_API_BASE @ ''/not-a-real-model:generateContent'']"
proof -
  let ?a = "sample_arguments\<lparr>model := Some ''not-a-real-model''\<rparr>"
  have k: "GEMINI_API_KEY hello_world = Some ''test-key''" "''test-key'' \<noteq> []"
    by (simp_all add: hello_world_def)
  have m: "model ?a = Some ''not-a-real-model''" "''not-a-real-model'' \<noteq> []"
    by simp_all
  have v: "\<not> blank (prompt ?a)" "messages ?a \<noteq> None \<and> messages ?a \<noteq> Some []"
    "\<not> blank (content ?a)"
    by (simp_all add: sample_arguments_def blank_def trim_def is_js_whitespace_def)
  from model_string_forwarded_verbatim [OF k m] v k m show ?thesis
    by simp
qed

subsection \<open>Validation\<close>

text \<open>
  C2, as the specification states it: a request that violates several constraints gets
  one aggregated validation failure with one message per violated field. A summarize
  request without \<open>content\<close> and with a \<open>focus\<close> of 1001 characters violates two
  constraints of the specification. The handler reports the single message about
  \<open>content\<close>, which does not name \<open>focus\<close>.
\<close>

theorem summarize_reports_one_field_only:
  "spec_violated_fields_summarize [DEFAULT_MODEL]
     (no_arguments\<lparr>focus := Some (replicate 1001 CHR ''a'')\<rparr>) = [''content'', ''focus''] \<and>
   handleGeminiSummarize hello_world (no_arguments\<lparr>focus := Some (replicate 1001 CHR ''a'')\<rparr>)
     = (Inl (Error ''content is required and cannot be empty''), []) \<and>
   \<not> sublist ''focus'' ''content is required and cannot be empty''"
proof (intro conjI)
  show "spec_violated_fields_summarize [DEFAULT_MODEL]
     (no_arguments\<lparr>focus := Some (replicate 1001 CHR ''a'')\<rparr>) = [''content'', ''focus'']"
    by (simp add: spec_violated_fields_summarize_def no_arguments_def)
  show "handleGeminiSummarize hello_world
     (no_arguments\<lparr>focus := Some (replicate 1001 CHR ''a'')\<rparr>)
     = (Inl (Error ''content is required and cannot be empty''), [])"
    by (simp add: handleGeminiSummarize_def no_arguments_def)
  show "\<not> sublist ''focus'' ''content is required and cannot be empty''"
    by code_simp
qed

text \<open>
  C2, amended: each handler checks one constraint only, the presence of its required
  field (a non-blank \<open>prompt\<close>, a non-empty \<open>messages\<close> array, a non-blank \<open>content\<close>).
  A request that fails this check gets a single failure with one fixed message about
  that field, whatever else it violates; a request that passes it is sent upstream
  (one request, given an API key), whatever else it violates.
\<close>

theorem validation_is_single_presence_check:
  assumes "GEMINI_API_KEY w = Some k" and "k \<noteq> []"
  shows "(if blank (prompt args)
          then handleGeminiAnalyze w args =
                 (Inl (Error ''prompt is required and cannot be empty''), [])
          else length (snd (handleGeminiAnalyze w args)) = 1) \<and>
         (if messages args = None \<or> messages args = Some []
          then handleGeminiChat w args =
                 (Inl (Error ''messages array is required and cannot be empty''), [])
          else length (snd (handleGeminiChat w args)) = 1) \<and>
         (if blank (content args)
          then handleGeminiSummarize w args =
                 (Inl (Error ''content is required and cannot be empty''), [])
          else length (snd (handleGeminiSummarize w args)) = 1)"
  using assms
  by (auto simp: handleGeminiAnalyze_def handleGeminiChat_def handleGeminiSummarize_def
      blank_def Let_def callGemini_requests split: option.splits)

theorem validation_is_single_presence_check_witness:
  "GEMINI_API_KEY hello_world = Some ''test-key'' \<and> ''test-key'' \<noteq> [] \<and>
   handleGeminiAnalyze hello_world (no_arguments\<lparr>focus := Some (replicate 1001 CHR ''a'')\<rparr>)
     = (Inl (Error ''prompt is required and cannot be empty''), []) \<and>
   handleGeminiChat hello_world (no_arguments\<lparr>focus := Some (replicate 1001 CHR ''a'')\<rparr>)
     = (Inl (Error ''messages array is required and cannot be empty''), []) \<and>
   handleGeminiSummarize hello_world (no_arguments\<lparr>focus := Some (replicate 1001 CHR ''a'')\<rparr>)
     = (Inl (Error ''content is required and cannot be empty''), []) \<and>
   spec_violated_fields_summarize [DEFAULT_MODEL]
     (sample_arguments\<lparr>focus := Some (replicate 1001 CHR ''a''),
                        model := Some ''not-a-real-model''\<rparr>) = [''focus'', ''model''] \<and>
   length (snd (handleGeminiAnalyze hello_world
     (sample_arguments\<lparr>focus := Some (replicate 1001 CHR ''a''),
                        model := Some ''not-a-real-model''\<rparr>))) = 1 \<and>
   length (snd (handleGeminiChat hello_world
     (sample_arguments\<lparr>focus := Some (replicate 1001 CHR ''a''),
                        model := Some ''not-a-real-model''\<rparr>))) = 1 \<and>
   length (snd (handleGeminiSummarize hello_world
     (sample_arguments\<lparr>focus := Some (replicate 1001 CHR ''a''),
                        model := Some ''not-a-real-model''\<rparr>))) = 1"
proof -
  let ?bad = "no_arguments\<lparr>focus := Some (replicate 1001 CHR ''a'')\<rparr>"
  let ?good = "sample_arguments\<lparr>focus := Some (replicate 1001 CHR ''a''),
                                 model := Some ''not-a-real-model''\<rparr>"
  have k: "GEMINI_API_KEY hello_world = Some ''test-key''" "''test-key'' \<noteq> []"
    by (simp_all add: hello_world_def)
  have bad: "blank (prompt ?bad)" "messages ?bad = None" "blank (content ?bad)"
    by (simp_all add: no_arguments_def blank_def)
  have good: "\<not> blank (prompt ?good)" "messages ?good \<noteq> None" "messages ?good \<noteq> Some []"
    "\<not> blank (content ?good)"
    by (simp_all add: sample_arguments_def blank_def trim_def is_js_whitespace_def)
  have viol: "spec_violated_fields_summarize [DEFAULT_MODEL] ?good = [''focus'', ''model'']"
    by (simp add: spec_violated_fields_summarize_def sample_arguments_def DEFAULT_MODEL_def)
  from validation_is_single_presence_check [OF k, of ?bad]
    validation_is_single_presence_check [OF k, of ?good] k bad good viol
  show ?thesis by simp
qed

text \<open>
  C7: for each of the three tools, a call without the required field (\<open>prompt\<close> for
  analyze, \<open>messages\<close> for chat, \<open>content\<close> for summarize) fails with a message that
  names the field, and no request is sent upstream.
\<close>

theorem missing_required_field_rejected:
  "(prompt args = None \<longrightarrow>
      handleGeminiAnalyze w args =
        (Inl (Error ''prompt is required and cannot be empty''), [])) \<and>
   (messages args = None \<longrightarrow>
      handleGeminiChat w args =
        (Inl (Error ''messages array is required and cannot be empty''), [])) \<and>
   (content args = None \<longrightarrow>
      handleGeminiSummarize w args =
        (Inl (Error ''content is required and cannot be empty''), [])) \<and>
   sublist ''prompt'' ''prompt is required and cannot be empty'' \<and>
   sublist ''messages'' ''messages array is required and cannot be empty'' \<and>
   sublist ''content'' ''content is required and cannot be empty''"
  by (simp add: handleGeminiAnalyze_def handleGeminiChat_def handleGeminiSummarize_def
      prefix_imp_sublist)

theorem missing_required_field_rejected_witness:
  "prompt no_arguments = None \<and> messages no_arguments = None \<and> content no_arguments = None \<and>
   handleGeminiAnalyze hello_world no_arguments =
     (Inl (Error ''prompt is required and cannot be empty''), []) \<and>
   handleGeminiChat hello_world no_arguments =
     (Inl (Error ''messages array is required and cannot be empty''), []) \<and>
   handleGeminiSummarize hello_world no_arguments =
     (Inl (Error ''content is required and cannot be empty''), [])"
proof -
  have h: "prompt no_arguments = None" "messages no_arguments = None"
    "content no_arguments = None"
    by (simp_all add: no_arguments_def)
  from missing_required_field_rejected [of no_arguments hello_world] h show ?thesis
    by simp
qed

subsection \<open>The dispatch boundary\<close>

text \<open>
  C3: whatever a tool handler or the switch over the tool name throws, the request
  handler returns a result whose single text item is \<open>Error: \<close> followed by the
  message of the error, with \<open>isError\<close> set to true. The handler has no other way
  out: its value is always a result object.
\<close>

theorem errors_become_error_envelope:
  assumes "tool_switch w name args = (Inl e, reqs)"
  shows "call_tool_handler w name args =
           (\<lparr>result_content =
               [\<lparr>item_type = ''text'', item_text = ''Error: '' @ error_message e\<rparr>],
             isError = Some True\<rparr>, reqs)"
  using assms by (simp add: call_tool_handler_def)

theorem errors_become_error_envelope_witness:
  "fst (call_tool_handler hello_world ''gemini_analyze'' no_arguments) =
     \<lparr>result_content =
        [\<lparr>item_type = ''text'',
          item_text = ''Error: prompt is required and cannot be empty''\<rparr>],
      isError = Some True\<rparr> \<and>
   fst (call_tool_handler no_key_world ''gemini_chat'' sample_arguments) =
     \<lparr>result_content =
        [\<lparr>item_type = ''text'',
          item_text = ''Error: GEMINI_API_KEY environment variable is required. '' @
                      ''Get your API key from https://aistudio.google.com/apikey''\<rparr>],
      isError = Some True\<rparr> \<and>
   fst (call_tool_handler overloaded_world ''gemini_summarize'' sample_arguments) =
     \<lparr>result_content =
        [\<lparr>item_type = ''text'',
          item_text = ''Error: Gemini API error (500): overloaded''\<rparr>],
      isError = Some True\<rparr> \<and>
   fst (call_tool_handler no_candidates_world ''gemini_analyze'' sample_arguments) =
     \<lparr>result_content =
        [\<lparr>item_type = ''text'',
          item_text = ''Error: No response content from Gemini''\<rparr>],
      isError = Some True\<rparr> \<and>
   call_tool_handler hello_world ''gemini_translate'' sample_arguments =
     (\<lparr>result_content =
         [\<lparr>item_type = ''text'', item_text = ''Error: Unknown tool: gemini_translate''\<rparr>],
       isError = Some True\<rparr>, [])"
proof -
  have validation:
    "tool_switch hello_world ''gemini_analyze'' no_arguments =
       (Inl (Error ''prompt is required and cannot be empty''), [])"
    by (simp add: tool_switch_def handleGeminiAnalyze_def no_arguments_def)
  have configuration:
    "tool_switch no_key_world ''gemini_chat'' sample_arguments =
       (Inl (Error (''GEMINI_API_KEY environment variable is required. '' @
                    ''Get your API key from https://aistudio.google.com/apikey'')), [])"
    by (simp add: world_defs code_defs)
  have upstream:
    "tool_switch overloaded_world ''gemini_summarize'' sample_arguments =
       (Inl (Error ''Gemini API error (500): overloaded''),
        snd (tool_switch overloaded_world ''gemini_summarize'' sample_arguments))"
    by (simp add: world_defs code_defs)
  have empty_response:
    "tool_switch no_candidates_world ''gemini_analyze'' sample_arguments =
       (Inl (Error ''No response content from Gemini''),
        snd (tool_switch no_candidates_world ''gemini_analyze'' sample_arguments))"
    by (simp add: world_defs code_defs)
  have unknown_tool:
    "tool_switch hello_world ''gemini_translate'' sample_arguments =
       (Inl (Error ''Unknown tool: gemini_translate''), [])"
    by (simp add: tool_switch_def)
  show ?thesis
    using errors_become_error_envelope [OF validation]
      errors_become_error_envelope [OF configuration]
      errors_become_error_envelope [OF upstream]
      errors_become_error_envelope [OF empty_response]
      errors_become_error_envelope [OF unknown_tool]
    by simp
qed

subsection \<open>Request translation\<close>

text \<open>
  C4: for an analyze request with a valid (non-blank) prompt, the request sent upstream
  carries a single user message. Its text is the prompt when \<open>context\<close> is absent or
  blank after trimming, and the prompt, the separator \<open>\<newline>\<newline>--- Context ---\<newline>\<close> and the
  context otherwise.
\<close>

theorem analyze_message_text:
  assumes "GEMINI_API_KEY w = Some k" and "k \<noteq> []"
    and "prompt args = Some p" and "trim p \<noteq> []"
  shows "(blank (context args) \<longrightarrow>
            map (contents \<circ> body) (snd (handleGeminiAnalyze w args)) =
              [[\<lparr>role = User, parts = [\<lparr>text = p\<rparr>]\<rparr>]]) \<and>
         (\<forall>c. context args = Some c \<and> trim c \<noteq> [] \<longrightarrow>
            map (contents \<circ> body) (snd (handleGeminiAnalyze w args)) =
              [[\<lparr>role = User,
                 parts = [\<lparr>text = p @ ''\<newline>\<newline>--- Context ---\<newline>'' @ c\<rparr>]\<rparr>]])"
  using assms
  by (auto simp: handleGeminiAnalyze_def blank_def Let_def callGemini_requests
      split: option.splits)

theorem analyze_message_text_witness:
  "GEMINI_API_KEY hello_world = Some ''test-key'' \<and> ''test-key'' \<noteq> [] \<and>
   prompt sample_arguments = Some ''X'' \<and> trim ''X'' \<noteq> [] \<and>
   blank (Some '' '') \<and> blank None \<and> trim ''Y'' \<noteq> [] \<and>
   map (contents \<circ> body)
     (snd (handleGeminiAnalyze hello_world (sample_arguments\<lparr>context := Some '' ''\<rparr>))) =
     [[\<lparr>role = User, parts = [\<lparr>text = ''X''\<rparr>]\<rparr>]] \<and>
   map (contents \<circ> body)
     (snd (handleGeminiAnalyze hello_world (sample_arguments\<lparr>context := None\<rparr>))) =
     [[\<lparr>role = User, parts = [\<lparr>text = ''X''\<rparr>]\<rparr>]] \<and>
   map (contents \<circ> body) (snd (handleGeminiAnalyze hello_world sample_arguments)) =
     [[\<lparr>role = User, parts = [\<lparr>text = ''X\<newline>\<newline>--- Context ---\<newline>Y''\<rparr>]\<rparr>]]"
proof -
  have k: "GEMINI_API_KEY hello_world = Some ''test-key''" "''test-key'' \<noteq> []"
    by (simp_all add: hello_world_def)
  have t: "trim ''X'' \<noteq> []" "trim ''Y'' \<noteq> []" "blank (Some '' '')" "blank None"
    by (simp_all add: blank_def trim_def is_js_whitespace_def)
  have p: "prompt sample_arguments = Some ''X''"
    "prompt (sample_arguments\<lparr>context := Some '' ''\<rparr>) = Some ''X''"
    "prompt (sample_arguments\<lparr>context := None\<rparr>) = Some ''X''"
    "context sample_arguments = Some ''Y''"
    by (simp_all add: sample_arguments_def)
  from analyze_message_text [OF k p(2) t(1)] analyze_message_text [OF k p(3) t(1)]
    analyze_message_text [OF k p(1) t(1)] k t p
  show ?thesis by simp
qed

text \<open>
  C5: for a summarize request with valid (non-blank) content, the request sent upstream
  carries a single user message, the instruction prefix followed by the content. The
  prefix is the fixed one when \<open>focus\<close> is absent or blank after trimming, and the one
  that quotes the focus otherwise. The temperature of the request is 0.5 and the token
  limit is 8192.
\<close>

theorem summarize_message_and_temperature:
  assumes "GEMINI_API_KEY w = Some k" and "k \<noteq> []"
    and "content args = Some c" and "trim c \<noteq> []"
  shows "(blank (focus args) \<longrightarrow>
            map body (snd (handleGeminiSummarize w args)) =
              [\<lparr>contents =
                  [\<lparr>role = User,
                    parts = [\<lparr>text =
                      ''Please provide a concise summary of the following content:'' @
                      ''\<newline>\<newline>'' @ c\<rparr>]\<rparr>],
                generationConfig =
                  Some \<lparr>temperature = Some 0.5, maxOutputTokens = Some 8192\<rparr>\<rparr>]) \<and>
         (\<forall>f. focus args = Some f \<and> trim f \<noteq> [] \<longrightarrow>
            map body (snd (handleGeminiSummarize w args)) =
              [\<lparr>contents =
                  [\<lparr>role = User,
                    parts = [\<lparr>text =
                      ''Please summarize the following content, focusing specifically on: '' @
                      f @ ''\<newline>\<newline>'' @ c\<rparr>]\<rparr>],
                generationConfig =
                  Some \<lparr>temperature = Some 0.5, maxOutputTokens = Some 8192\<rparr>\<rparr>])"
  using assms
  by (auto simp: handleGeminiSummarize_def blank_def Let_def callGemini_requests
      split: option.splits)

theorem summarize_message_and_temperature_witness:
  "GEMINI_API_KEY hello_world = Some ''test-key'' \<and> ''test-key'' \<noteq> [] \<and>
   content sample_arguments = Some ''ABC'' \<and> trim ''ABC'' \<noteq> [] \<and>
   blank None \<and> focus sample_arguments = Some ''bugs'' \<and> trim ''bugs'' \<noteq> [] \<and>
   map body (snd (handleGeminiSummarize hello_world (sample_arguments\<lparr>focus := None\<rparr>))) =
     [\<lparr>contents =
         [\<lparr>role = User,
           parts = [\<lparr>text =
             ''Please provide a concise summary of the following content:\<newline>\<newline>ABC''\<rparr>]\<rparr>],
       generationConfig = Some \<lparr>temperature = Some 0.5, maxOutputTokens = Some 8192\<rparr>\<rparr>] \<and>
   map body (snd (handleGeminiSummarize hello_world sample_arguments)) =
     [\<lparr>contents =
         [\<lparr>role = User,
           parts = [\<lparr>text =
             ''Please summarize the following content, focusing specifically on: bugs'' @
             ''\<newline>\<newline>ABC''\<rparr>]\<rparr>],
       generationConfig = Some \<lparr>temperature = Some 0.5, maxOutputTokens = Some 8192\<rparr>\<rparr>]"
proof -
  have k: "GEMINI_API_KEY hello_world = Some ''test-key''" "''test-key'' \<noteq> []"
    by (simp_all add: hello_world_def)
  have t: "trim ''ABC'' \<noteq> []" "trim ''bugs'' \<noteq> []" "blank None"
    by (simp_all add: blank_def trim_def is_js_whitespace_def)
  have c: "content sample_arguments = Some ''ABC''"
    "content (sample_arguments\<lparr>focus := None\<rparr>) = Some ''ABC''"
    "focus sample_arguments = Some ''bugs''"
    by (simp_all add: sample_arguments_def)
  from summarize_message_and_temperature [OF k c(2) t(1)]
    summarize_message_and_temperature [OF k c(1) t(1)] k t c
  show ?thesis by simp
qed

lemma all_less_two: "(\<forall>i<(2::nat). P i) \<longleftrightarrow> P 0 \<and> P 1"
  using less_2_cases by auto

text \<open>
  C6: for a chat request with a non-empty list of turns, the request sent upstream
  carries one message per turn: the list of messages has the length of the list of
  turns, and the message at each position has the role of the turn at that position
  and, as its only part, the content of that turn.
\<close>

theorem chat_messages_translated_in_order:
  assumes "GEMINI_API_KEY w = Some k" and "k \<noteq> []"
    and "messages args = Some ms" and "ms \<noteq> []"
  shows "\<exists>request. snd (handleGeminiChat w args) = [request] \<and>
           length (contents (body request)) = length ms \<and>
           (\<forall>i<length ms.
              role (contents (body request) ! i) = turn_role (ms ! i) \<and>
              parts (contents (body request) ! i) = [\<lparr>text = turn_content (ms ! i)\<rparr>])"
  using assms
  by (simp add: handleGeminiChat_def Let_def callGemini_requests)

theorem chat_messages_translated_in_order_witness:
  "GEMINI_API_KEY hello_world = Some ''test-key'' \<and> ''test-key'' \<noteq> [] \<and>
   messages sample_arguments =
     Some [\<lparr>turn_role = User, turn_content = ''hi''\<rparr>,
           \<lparr>turn_role = Model, turn_content = ''hello''\<rparr>] \<and>
   map (contents \<circ> body) (snd (handleGeminiChat hello_world sample_arguments)) =
     [[\<lparr>role = User, parts = [\<lparr>text = ''hi''\<rparr>]\<rparr>,
       \<lparr>role = Model, parts = [\<lparr>text = ''hello''\<rparr>]\<rparr>]]"
proof -
  let ?ms = "[\<lparr>turn_role = User, turn_content = ''hi''\<rparr>,
              \<lparr>turn_role = Model, turn_content = ''hello''\<rparr>]"
  have k: "GEMINI_API_KEY hello_world = Some ''test-key''" "''test-key'' \<noteq> []"
    by (simp_all add: hello_world_def)
  have m: "messages sample_arguments = Some ?ms" "?ms \<noteq> []"
    by (simp_all add: sample_arguments_def)
  from chat_messages_translated_in_order [OF k m]
  obtain request where r: "snd (handleGeminiChat hello_world sample_arguments) = [request]"
    and len: "length (contents (body request)) = 2"
    and at: "\<forall>i<2. role (contents (body request) ! i) = turn_role (?ms ! i) \<and>
                     parts (contents (body request) ! i) = [\<lparr>text = turn_content (?ms ! i)\<rparr>]"
    by auto
  from len obtain a b where ab: "contents (body request) = [a, b]"
    by (auto simp: length_Suc_conv numeral_2_eq_2)
  from at have "role a = User \<and> parts a = [\<lparr>text = ''hi''\<rparr>]"
    and "role b = Model \<and> parts b = [\<lparr>text = ''hello''\<rparr>]"
    unfolding ab by (auto simp: all_less_two)
  then have "a = \<lparr>role = User, parts = [\<lparr>text = ''hi''\<rparr>]\<rparr>"
    and "b = \<lparr>role = Model, parts = [\<lparr>text = ''hello''\<rparr>]\<rparr>"
    by simp_all
  with r ab k m show ?thesis by simp
qed

subsection \<open>The upstream caller\<close>

text \<open>
  C8, as the specification states it: on a well-formed response without text the
  upstream caller fails with the message \<open>No response content returned\<close>. On a
  response with status 200 and no candidates, the caller fails, but its message is
  \<open>No response content from Gemini\<close>.
\<close>

theorem empty_response_message_text:
  "fst (callGemini no_candidates_world [\<lparr>role = User, parts = [\<lparr>text = ''hi''\<rparr>]\<rparr>]
          None None None) = Inl (Error ''No response content from Gemini'') \<and>
   fst (callGemini no_candidates_world [\<lparr>role = User, parts = [\<lparr>text = ''hi''\<rparr>]\<rparr>]
          None None None) \<noteq> Inl (Error ''No response content returned'')"
  by (simp add: world_defs code_defs)

text \<open>
  C8, amended: on a well-formed upstream response (status from 200 to 299, JSON body
  without an \<open>error\<close> object), if \<open>candidates[0].content.parts[0].text\<close> is missing or
  empty, the upstream caller fails with the error \<open>No response content from Gemini\<close>;
  otherwise it succeeds with exactly that text.
\<close>

theorem callGemini_extracts_text:
  assumes "GEMINI_API_KEY w = Some k" and "k \<noteq> []"
    and "\<And>request. fetch w request = Inr response"
    and "ok response"
    and "json_result response = Inr data"
    and "error data = None"
  shows "fst (callGemini w msgs m t n) =
           (case first_candidate_text data of
              None \<Rightarrow> Inl (Error ''No response content from Gemini'')
            | Some txt \<Rightarrow>
                if txt = [] then Inl (Error ''No response content from Gemini'')
                else Inr txt)"
  using assms
  by (simp add: callGemini_def getApiKey_def Let_def split: option.splits)

theorem callGemini_extracts_text_witness:
  "GEMINI_API_KEY hello_world = Some ''test-key'' \<and> ''test-key'' \<noteq> [] \<and>
   ok hello_response \<and> ok no_candidates_response \<and>
   first_candidate_text \<lparr>candidates = None, error = None\<rparr> = None \<and>
   fst (callGemini no_candidates_world [] None None None) =
     Inl (Error ''No response content from Gemini'') \<and>
   fst (callGemini hello_world [] None None None) = Inr ''Hello''"
proof -
  have k: "GEMINI_API_KEY hello_world = Some ''test-key''" "''test-key'' \<noteq> []"
    and k': "GEMINI_API_KEY no_candidates_world = Some ''test-key''"
    by (simp_all add: world_defs)
  have f: "\<And>request. fetch hello_world request = Inr hello_response"
    and f': "\<And>request. fetch no_candidates_world request = Inr no_candidates_response"
    by (simp_all add: world_defs)
  have o: "ok hello_response" "ok no_candidates_response"
    by (simp_all add: ok_def world_defs)
  let ?hello = "\<lparr>candidates = Some [\<lparr>cand_content =
      Some \<lparr>resp_parts = Some [\<lparr>resp_text = Some ''Hello''\<rparr>]\<rparr>\<rparr>], error = None\<rparr>"
  let ?none = "\<lparr>candidates = None, error = None\<rparr>"
  have j: "json_result hello_response = Inr ?hello" "error ?hello = None"
    and j': "json_result no_candidates_response = Inr ?none" "error ?none = None"
    by (simp_all add: world_defs)
  have c: "first_candidate_text ?hello = Some ''Hello''" "first_candidate_text ?none = None"
    by (simp_all add: first_candidate_text_def)
  from callGemini_extracts_text [OF k f o(1) j, of "[]" None None None]
    callGemini_extracts_text [OF k' k(2) f' o(2) j', of "[]" None None None] k o c
  show ?thesis by simp
qed

subsection \<open>Blank strings and the empty model\<close>

text \<open>
  C9: an analyze request whose prompt consists of white space only, and a summarize
  request whose content consists of white space only, are rejected with the message
  for a missing field and without a request upstream, exactly as if the field were
  absent, although the string may have one character or more.
\<close>

theorem blank_required_string_rejected:
  assumes "\<forall>c\<in>set s. is_js_whitespace c"
  shows "handleGeminiAnalyze w (args\<lparr>prompt := Some s\<rparr>) =
           (Inl (Error ''prompt is required and cannot be empty''), []) \<and>
         handleGeminiAnalyze w (args\<lparr>prompt := Some s\<rparr>) =
           handleGeminiAnalyze w (args\<lparr>prompt := None\<rparr>) \<and>
         handleGeminiSummarize w (args\<lparr>content := Some s\<rparr>) =
           (Inl (Error ''content is required and cannot be empty''), []) \<and>
         handleGeminiSummarize w (args\<lparr>content := Some s\<rparr>) =
           handleGeminiSummarize w (args\<lparr>content := None\<rparr>)"
  using assms
  by (simp add: handleGeminiAnalyze_def handleGeminiSummarize_def trim_eq_Nil_iff)

theorem blank_required_string_rejected_witness:
  "list_all is_js_whitespace '' \<newline>  '' \<and> 1 \<le> length '' \<newline>  '' \<and>
   handleGeminiAnalyze hello_world (sample_arguments\<lparr>prompt := Some '' \<newline>  ''\<rparr>) =
     (Inl (Error ''prompt is required and cannot be empty''), []) \<and>
   handleGeminiSummarize hello_world (sample_arguments\<lparr>content := Some '' \<newline>  ''\<rparr>) =
     (Inl (Error ''content is required and cannot be empty''), [])"
proof -
  have h: "\<forall>c\<in>set '' \<newline>  ''. is_js_whitespace c"
    by (simp add: is_js_whitespace_def)
  from blank_required_string_rejected [OF h, of hello_world sample_arguments] h
  show ?thesis by (simp add: list_all_iff)
qed

text \<open>
  C10: when the \<open>model\<close> argument is the empty string, each of the three handlers
  behaves as it does without a \<open>model\<close> argument, and every request it sends goes to
  the URL of the default model.
\<close>

theorem empty_model_uses_default:
  assumes "model args = Some []"
  shows "handleGeminiAnalyze w args = handleGeminiAnalyze w (args\<lparr>model := None\<rparr>) \<and>
         handleGeminiChat w args = handleGeminiChat w (args\<lparr>model := None\<rparr>) \<and>
         handleGeminiSummarize w args = handleGeminiSummarize w (args\<lparr>model := None\<rparr>) \<and>
         (\<forall>request \<in> set (snd (handleGeminiAnalyze w args) @ snd (handleGeminiChat w args) @
                            snd (handleGeminiSummarize w args)).
            url request = GEMINI_API_BASE @ ''/'' @ DEFAULT_MODEL @ '':generateContent'')"
proof -
  have url: "\<forall>request \<in> set (snd (callGemini w msgs (Some DEFAULT_MODEL) t n)).
               url request = GEMINI_API_BASE @ ''/'' @ DEFAULT_MODEL @ '':generateContent''"
    for msgs t n
    by (auto simp: callGemini_def Let_def split: sum.splits option.splits if_splits)
  show ?thesis
    using assms url
    by (auto simp: handleGeminiAnalyze_def handleGeminiChat_def handleGeminiSummarize_def
        or_default_def Let_def split: option.splits)
qed

theorem empty_model_uses_default_witness:
  "model (sample_arguments\<lparr>model := Some []\<rparr>) = Some [] \<and>
   map url (snd (handleGeminiAnalyze hello_world (sample_arguments\<lparr>model := Some []\<rparr>))) =
     [''https://generativelanguage.googleapis.com/v1beta/models/'' @
      ''gemini-2.5-flash-preview-05-20:generateContent''] \<and>
   map url (snd (handleGeminiChat hello_world (sample_arguments\<lparr>model := Some []\<rparr>))) =
     [''https://generativelanguage.googleapis.com/v1beta/models/'' @
      ''gemini-2.5-flash-preview-05-20:generateContent''] \<and>
   map url (snd (handleGeminiSummarize hello_world (sample_arguments\<lparr>model := Some []\<rparr>))) =
     [''https://generativelanguage.googleapis.com/v1beta/models/'' @
      ''gemini-2.5-flash-preview-05-20:generateContent'']"
proof -
  let ?a = "sample_arguments\<lparr>model := Some []\<rparr>"
  have h: "model ?a = Some []" by simp
  have same: "?a\<lparr>model := None\<rparr> = sample_arguments"
    by (simp add: sample_arguments_def)
  have k: "GEMINI_API_KEY hello_world = Some ''test-key''" "''test-key'' \<noteq> []"
    by (simp_all add: hello_world_def)
  have sent: "length (snd (handleGeminiAnalyze hello_world sample_arguments)) = 1"
    "length (snd (handleGeminiChat hello_world sample_arguments)) = 1"
    "length (snd (handleGeminiSummarize hello_world sample_arguments)) = 1"
    by (simp_all add: handleGeminiAnalyze_def handleGeminiChat_def handleGeminiSummarize_def
        Let_def callGemini_requests [OF k] sample_arguments_def trim_def is_js_whitespace_def)
  from empty_model_uses_default [OF h, of hello_world]
  have eqs: "handleGeminiAnalyze hello_world ?a = handleGeminiAnalyze hello_world sample_arguments"
    "handleGeminiChat hello_world ?a = handleGeminiChat hello_world sample_arguments"
    "handleGeminiSummarize hello_world ?a = handleGeminiSummarize hello_world sample_arguments"
    and urls: "\<forall>request \<in> set (snd (handleGeminiAnalyze hello_world ?a) @
                                   snd (handleGeminiChat hello_world ?a) @
                                   snd (handleGeminiSummarize hello_world ?a)).
                 url request = GEMINI_API_BASE @ ''/'' @ DEFAULT_MODEL @ '':generateContent''"
    unfolding same by blast+
  from sent obtain r1 r2 r3 where
    r: "snd (handleGeminiAnalyze hello_world sample_arguments) = [r1]"
       "snd (handleGeminiChat hello_world sample_arguments) = [r2]"
       "snd (handleGeminiSummarize hello_world sample_arguments) = [r3]"
    by (auto simp: length_Suc_conv)
  from urls r show ?thesis
    unfolding eqs by (simp add: GEMINI_API_BASE_def DEFAULT_MODEL_def)
qed

end
